theory Spec2Isabelle
  imports Complex_Main
begin

section \<open>Errors and calendar dates\<close>

text \<open>
  The program is the script \<^verbatim>\<open>eda_python.py\<close>: it builds a quarterly date axis, draws a
  synthetic growth series with a shock subtracted in 2008, stores it in a table indexed by
  date, prints descriptive statistics and two checks, and draws one chart. The script is
  straight-line code over pandas, numpy and matplotlib; each library call it makes is
  modelled here by a function of the same name that follows the documented behaviour of the
  call for the arguments the script passes. An exception is a value \<open>Inl e\<close> of the result
  type \<open>error + 'a\<close>, and \<open>and_then\<close> stops at the first one.
\<close>

datatype error = IndexError | ValueError | KeyError

definition and_then :: "error + 'a \<Rightarrow> ('a \<Rightarrow> error + 'b) \<Rightarrow> error + 'b" where
  "and_then r f = (case r of Inl e \<Rightarrow> Inl e | Inr x \<Rightarrow> f x)"

text \<open>
  A timestamp at midnight is a calendar date. \<open>to_datetime\<close> models
  \<^verbatim>\<open>pd.to_datetime\<close> on the ISO form \<^verbatim>\<open>YYYY-MM-DD\<close>, the only form the script uses;
  other strings and impossible dates raise \<^verbatim>\<open>ValueError\<close>.
\<close>

datatype date = Date (year: nat) (month: nat) (day: nat)

definition date_le :: "date \<Rightarrow> date \<Rightarrow> bool" where
  "date_le a b \<longleftrightarrow>
     year a < year b \<or>
     (year a = year b \<and> (month a < month b \<or> (month a = month b \<and> day a \<le> day b)))"

definition date_less :: "date \<Rightarrow> date \<Rightarrow> bool" where
  "date_less a b \<longleftrightarrow> date_le a b \<and> a \<noteq> b"

definition is_leap :: "nat \<Rightarrow> bool" where
  "is_leap y \<longleftrightarrow> (y mod 4 = 0 \<and> y mod 100 \<noteq> 0) \<or> y mod 400 = 0"

definition days_in_month :: "nat \<Rightarrow> nat \<Rightarrow> nat" where
  "days_in_month y m =
     (if m = 2 then (if is_leap y then 29 else 28)
      else if m = 4 \<or> m = 6 \<or> m = 9 \<or> m = 11 then 30 else 31)"

definition digit :: "char \<Rightarrow> nat option" where
  "digit c = (let k = (of_char c :: nat) in if 48 \<le> k \<and> k \<le> 57 then Some (k - 48) else None)"


definition to_datetime :: "string \<Rightarrow> error + date" where
  "to_datetime s =
     (if length s = 10 \<and> s ! 4 = CHR ''-'' \<and> s ! 7 = CHR ''-'' then
        (case those (map digit [s ! 0, s ! 1, s ! 2, s ! 3, s ! 5, s ! 6, s ! 8, s ! 9]) of
           Some [a, b, c, d, e, f, g, h] \<Rightarrow>
             (let y = 1000 * a + 100 * b + 10 * c + d; m = 10 * e + f; dd = 10 * g + h
              in if 1 \<le> m \<and> m \<le> 12 \<and> 1 \<le> dd \<and> dd \<le> days_in_month y m
                 then Inr (Date y m dd) else Inl ValueError)
         | _ \<Rightarrow> Inl ValueError)
      else Inl ValueError)"

text \<open>
  \<^verbatim>\<open>dates = pd.date_range(start='2005-01-01', end='2010-12-31', freq='QS')\<close>

  The frequency \<^verbatim>\<open>QS\<close> is quarter start, anchored at January: the range begins at the
  first quarter start on or after \<open>start\<close> and advances by three months while the date is not
  after \<open>end\<close>. Months are counted from year 0 (\<open>month_index\<close>), and the loop is
  \<open>quarter_starts\<close>, which terminates because the month index approaches that of \<open>end\<close>.
\<close>

definition month_index :: "date \<Rightarrow> nat" where
  "month_index d = 12 * year d + (month d - 1)"

definition month_start :: "nat \<Rightarrow> date" where
  "month_start k = Date (k div 12) (k mod 12 + 1) 1"

definition add_months :: "date \<Rightarrow> nat \<Rightarrow> date" where
  "add_months d n =
     (let k = month_index d + n; y = k div 12; m = k mod 12 + 1
      in Date y m (min (day d) (days_in_month y m)))"

definition is_quarter_start :: "date \<Rightarrow> bool" where
  "is_quarter_start d \<longleftrightarrow> day d = 1 \<and> (month d - 1) mod 3 = 0"

definition rollforward :: "date \<Rightarrow> nat" where
  "rollforward d = (if is_quarter_start d then month_index d else (month_index d div 3 + 1) * 3)"

function quarter_starts :: "nat \<Rightarrow> date \<Rightarrow> date list" where
  "quarter_starts k e =
     (if 1 \<le> month e \<and> date_le (month_start k) e
      then month_start k # quarter_starts (k + 3) e else [])"
  by pat_completeness auto
termination
proof (relation "measure (\<lambda>(k, e). month_index e + 1 - k)")
  show "wf (measure (\<lambda>(k, e). month_index e + 1 - k))"
    by simp
next
  fix k :: nat and e :: date
  assume a: "1 \<le> month e \<and> date_le (month_start k) e"
  have k: "k = 12 * (k div 12) + k mod 12" by simp
  have m: "k mod 12 < 12" by simp
  from a have "k div 12 < year e \<or> (k div 12 = year e \<and> k mod 12 + 1 \<le> month e)"
    unfolding date_le_def month_start_def by auto
  then have "12 * (k div 12) + k mod 12 \<le> 12 * year e + (month e - 1)"
    using m a by linarith
  then have "k \<le> month_index e"
    unfolding month_index_def using k by linarith
  then show "((k + 3, e), (k, e)) \<in> measure (\<lambda>(k, e). month_index e + 1 - k)"
    by simp
qed

declare quarter_starts.simps [simp del]

datatype freq = QS

definition date_range :: "string \<Rightarrow> string \<Rightarrow> freq \<Rightarrow> error + date list" where
  "date_range start end f =
     and_then (to_datetime start) (\<lambda>s.
     and_then (to_datetime end) (\<lambda>e.
       (case f of QS \<Rightarrow> Inr (quarter_starts (rollforward s) e))))"

section \<open>Arrays of floats and the random source\<close>

text \<open>
  A float is a real number or NaN; rounding and infinities are not modelled. The random
  source is the stream of standard-normal variates still to be drawn, and
  \<^verbatim>\<open>np.random.normal(loc, scale, n)\<close> takes the next \<open>n\<close> of them, returning
  \<open>loc + scale * z\<close> for each, together with the rest of the stream.
\<close>

datatype float64 = Fin real | NaN

fun fadd :: "float64 \<Rightarrow> float64 \<Rightarrow> float64" where
  "fadd (Fin a) (Fin b) = Fin (a + b)"
| "fadd _ _ = NaN"

fun fsub :: "float64 \<Rightarrow> float64 \<Rightarrow> float64" where
  "fsub (Fin a) (Fin b) = Fin (a - b)"
| "fsub _ _ = NaN"

type_synonym random_state = "nat \<Rightarrow> real"

definition normal :: "real \<Rightarrow> real \<Rightarrow> nat \<Rightarrow> random_state \<Rightarrow> float64 list \<times> random_state" where
  "normal loc scale n g = (map (\<lambda>i. Fin (loc + scale * g i)) [0..<n], \<lambda>i. g (n + i))"

text \<open>
  \<^verbatim>\<open>np.where(dates == pd.to_datetime('2008-01-01'))[0][0]\<close>

  The comparison gives a boolean mask, \<open>np_where\<close> the increasing list of the indices where
  the mask holds, and \<open>item0\<close> its first element, raising \<^verbatim>\<open>IndexError\<close> on the empty
  list.

  \<^verbatim>\<open>baseline_growth[shock_period_start:shock_period_end] -= 4.5\<close>

  Both bounds are non-negative here, so the slice is the set of indices \<open>i\<close> of the array
  with \<open>lo \<le> i < hi\<close> (\<open>isub_slice\<close>). The sum of two arrays is elementwise, a
  one-element array is broadcast, and other length mismatches raise \<^verbatim>\<open>ValueError\<close>
  (\<open>np_add\<close>).
\<close>

definition eq_mask :: "date list \<Rightarrow> date \<Rightarrow> bool list" where
  "eq_mask ds t = map (\<lambda>d. d = t) ds"

definition np_where :: "bool list \<Rightarrow> nat list" where
  "np_where m = filter (\<lambda>i. m ! i) [0..<length m]"

definition item0 :: "'a list \<Rightarrow> error + 'a" where
  "item0 xs = (case xs of [] \<Rightarrow> Inl IndexError | x # _ \<Rightarrow> Inr x)"

definition isub_slice :: "float64 list \<Rightarrow> nat \<Rightarrow> nat \<Rightarrow> float64 \<Rightarrow> float64 list" where
  "isub_slice a lo hi c =
     map (\<lambda>i. if lo \<le> i \<and> i < hi then fsub (a ! i) c else a ! i) [0..<length a]"

definition np_add :: "float64 list \<Rightarrow> float64 list \<Rightarrow> error + float64 list" where
  "np_add xs ys =
     (if length xs = length ys then Inr (map2 fadd xs ys)
      else if length ys = 1 then Inr (map (\<lambda>x. fadd x (ys ! 0)) xs)
      else if length xs = 1 then Inr (map (\<lambda>y. fadd (xs ! 0) y) ys)
      else Inl ValueError)"

section \<open>Tables\<close>

text \<open>
  A table has an index and named columns, in insertion order. \<open>DataFrame\<close> builds it from
  a dictionary of columns of one length under a range index, \<open>set_index\<close> moves a column
  into the index, \<open>len\<close> is the number of rows, \<open>getitem\<close> is \<^verbatim>\<open>df[name]\<close>, and
  \<open>isnull_sum_sum\<close> is \<^verbatim>\<open>df.isnull().sum().sum()\<close>, the number of NaN cells over all
  columns.
\<close>

datatype column = DateCol "date list" | FloatCol "float64 list"

datatype pd_index = RangeIndex nat | DatetimeIndex "date list" | FloatIndex "float64 list"

record dataframe =
  index :: pd_index
  columns :: "(string \<times> column) list"

definition col_len :: "column \<Rightarrow> nat" where
  "col_len c = (case c of DateCol ds \<Rightarrow> length ds | FloatCol xs \<Rightarrow> length xs)"

definition DataFrame :: "(string \<times> column) list \<Rightarrow> error + dataframe" where
  "DataFrame d =
     (case d of
        [] \<Rightarrow> Inr \<lparr>index = RangeIndex 0, columns = []\<rparr>
      | kc # rest \<Rightarrow>
          if list_all (\<lambda>kc'. col_len (snd kc') = col_len (snd kc)) rest
          then Inr \<lparr>index = RangeIndex (col_len (snd kc)), columns = d\<rparr>
          else Inl ValueError)"

definition set_index :: "dataframe \<Rightarrow> string \<Rightarrow> error + dataframe" where
  "set_index t k =
     (case map_of (columns t) k of
        None \<Rightarrow> Inl KeyError
      | Some c \<Rightarrow>
          Inr \<lparr>index = (case c of DateCol ds \<Rightarrow> DatetimeIndex ds | FloatCol xs \<Rightarrow> FloatIndex xs),
               columns = filter (\<lambda>kc. fst kc \<noteq> k) (columns t)\<rparr>)"

definition len :: "dataframe \<Rightarrow> nat" where
  "len t = (case index t of RangeIndex n \<Rightarrow> n | DatetimeIndex ds \<Rightarrow> length ds
             | FloatIndex xs \<Rightarrow> length xs)"

definition getitem :: "dataframe \<Rightarrow> string \<Rightarrow> error + column" where
  "getitem t k = (case map_of (columns t) k of None \<Rightarrow> Inl KeyError | Some c \<Rightarrow> Inr c)"

definition isnull :: "column \<Rightarrow> bool list" where
  "isnull c = (case c of DateCol ds \<Rightarrow> map (\<lambda>d. False) ds | FloatCol xs \<Rightarrow> map (\<lambda>x. x = NaN) xs)"

definition isnull_sum_sum :: "dataframe \<Rightarrow> nat" where
  "isnull_sum_sum t = sum_list (map (\<lambda>kc. length (filter id (isnull (snd kc)))) (columns t))"

definition is_DatetimeIndex :: "pd_index \<Rightarrow> bool" where
  "is_DatetimeIndex i = (case i of DatetimeIndex ds \<Rightarrow> True | _ \<Rightarrow> False)"

section \<open>Descriptive statistics\<close>

text \<open>
  \<^verbatim>\<open>Series.describe()\<close> on a float column leaves out the NaN cells and gives the count,
  the mean, the sample standard deviation (divisor \<open>n - 1\<close>, undefined below two values),
  the minimum, the quartiles by linear interpolation between the two closest ranks, and the
  maximum. A statistic of no values is NaN. The summary of a date column is not used by the
  script and is kept uninterpreted.
\<close>

record stats =
  count :: nat
  mean :: float64
  std :: float64
  min_val :: float64
  pct25 :: float64
  pct50 :: float64
  pct75 :: float64
  max_val :: float64

fun dropna :: "float64 list \<Rightarrow> real list" where
  "dropna [] = []"
| "dropna (Fin v # xs) = v # dropna xs"
| "dropna (NaN # xs) = dropna xs"

definition series_mean :: "real list \<Rightarrow> float64" where
  "series_mean vs = (if vs = [] then NaN else Fin (sum_list vs / real (length vs)))"

definition series_std :: "real list \<Rightarrow> float64" where
  "series_std vs =
     (if length vs < 2 then NaN
      else let m = sum_list vs / real (length vs)
           in Fin (sqrt (sum_list (map (\<lambda>v. (v - m)\<^sup>2) vs) / real (length vs - 1))))"

definition series_min :: "real list \<Rightarrow> float64" where
  "series_min vs = (case vs of [] \<Rightarrow> NaN | v # r \<Rightarrow> Fin (fold min r v))"

definition series_max :: "real list \<Rightarrow> float64" where
  "series_max vs = (case vs of [] \<Rightarrow> NaN | v # r \<Rightarrow> Fin (fold max r v))"

definition quantile :: "real list \<Rightarrow> real \<Rightarrow> float64" where
  "quantile vs q =
     (if vs = [] then NaN
      else let s = sort vs;
               pos = real (length s - 1) * q;
               lo = nat \<lfloor>pos\<rfloor>;
               hi = min (lo + 1) (length s - 1)
           in Fin (s ! lo + (s ! hi - s ! lo) * (pos - real lo)))"

datatype summary = NumericSummary stats | DatetimeSummary "date list"

definition describe :: "column \<Rightarrow> summary" where
  "describe c =
     (case c of
        DateCol ds \<Rightarrow> DatetimeSummary ds
      | FloatCol xs \<Rightarrow>
          (let vs = dropna xs
           in NumericSummary
                \<lparr>count = length vs, mean = series_mean vs, std = series_std vs,
                 min_val = series_min vs, pct25 = quantile vs 0.25, pct50 = quantile vs 0.5,
                 pct75 = quantile vs 0.75, max_val = series_max vs\<rparr>))"

section \<open>Console output and figures\<close>

text \<open>
  An output is one call of \<^verbatim>\<open>print\<close>: a line of text, or the statistics table, whose
  layout on the console is not modelled. \<open>str_nat\<close> and \<open>str_bool\<close> are the
  formatting of an integer and of a boolean in an f-string. A figure records what the
  plotting calls of the script set.
\<close>

datatype out = Text string | Table summary

definition digit_char :: "nat \<Rightarrow> char" where
  "digit_char n = ''0123456789'' ! n"

fun str_nat :: "nat \<Rightarrow> string" where
  "str_nat n = (if n < 10 then [digit_char n] else str_nat (n div 10) @ [digit_char (n mod 10)])"

declare str_nat.simps [simp del]

definition str_bool :: "bool \<Rightarrow> string" where
  "str_bool b = (if b then ''True'' else ''False'')"

record figure =
  style :: string
  figsize :: "nat \<times> nat"
  lines :: "(pd_index \<times> column \<times> string) list"
  spans :: "(date \<times> date \<times> string) list"
  vlines :: "(date \<times> string) list"
  title :: string
  xlabel :: string
  ylabel :: string
  legend_loc :: string
  xticks_rotation :: nat
  tight :: bool

definition index_len :: "pd_index \<Rightarrow> nat" where
  "index_len i = (case i of RangeIndex n \<Rightarrow> n | DatetimeIndex ds \<Rightarrow> length ds
                   | FloatIndex xs \<Rightarrow> length xs)"

definition plot :: "figure \<Rightarrow> pd_index \<Rightarrow> column \<Rightarrow> string \<Rightarrow> error + figure" where
  "plot fig x y label =
     (if index_len x = col_len y then Inr (fig\<lparr>lines := lines fig @ [(x, y, label)]\<rparr>)
      else Inl ValueError)"

section \<open>The script\<close>

text \<open>
  The state holds the global variables of the script, the random stream, the console and the
  figures shown. \<open>generate\<close> is lines 13 to 37 (with \<open>generate_from\<close> the part after the
  date axis is built, lines 17 to 37), \<open>report\<close> lines 40 to 45, \<open>render\<close> lines 51 to
  73, and \<open>script\<close> the whole file with its last \<^verbatim>\<open>print\<close>.

  \<^verbatim>\<open>
  n_points = len(dates)
  baseline_growth = np.random.normal(5.0, 0.5, n_points)
  shock_period_start = np.where(dates == pd.to_datetime('2008-01-01'))[0][0]
  shock_period_end = np.where(dates == pd.to_datetime('2009-01-01'))[0][0]
  baseline_growth[shock_period_start:shock_period_end] -= 4.5
  df = pd.DataFrame({'Date': dates,
      'GDP_Growth_Rate': baseline_growth + np.random.normal(0, 0.3, n_points)})
  df = df.set_index('Date')
  print(f"DataFrame created with {len(df)} quarterly observations.")
  \<close>
\<close>

record env =
  dates :: "date list"
  n_points :: nat
  baseline_growth :: "float64 list"
  shock_period_start :: nat
  shock_period_end :: nat
  df :: dataframe
  random :: random_state
  stdout :: "out list"
  shown :: "figure list"

definition print :: "out \<Rightarrow> env \<Rightarrow> env" where
  "print x s = s\<lparr>stdout := stdout s @ [x]\<rparr>"

definition index_of_date :: "date list \<Rightarrow> string \<Rightarrow> error + nat" where
  "index_of_date ds str = and_then (to_datetime str) (\<lambda>t. item0 (np_where (eq_mask ds t)))"

definition generate_from :: "date list \<Rightarrow> random_state \<Rightarrow> out list \<Rightarrow> error + env" where
  "generate_from ds g out =
     (let n = length ds;
          b = normal 5.0 0.5 n g
      in and_then (index_of_date ds ''2008-01-01'') (\<lambda>lo.
         and_then (index_of_date ds ''2009-01-01'') (\<lambda>hi.
           (let b' = isub_slice (fst b) lo hi (Fin 4.5);
                noise = normal 0 0.3 n (snd b)
            in and_then (np_add b' (fst noise)) (\<lambda>col.
               and_then (DataFrame [(''Date'', DateCol ds), (''GDP_Growth_Rate'', FloatCol col)]) (\<lambda>t.
               and_then (set_index t ''Date'') (\<lambda>t.
                 Inr (print (Text (''DataFrame created with '' @ str_nat (len t)
                                    @ '' quarterly observations.''))
                        \<lparr>dates = ds, n_points = n, baseline_growth = b',
                         shock_period_start = lo, shock_period_end = hi, df = t,
                         random = snd noise, stdout = out, shown = []\<rparr>))))))))"

definition generate :: "random_state \<Rightarrow> error + env" where
  "generate g =
     and_then (date_range ''2005-01-01'' ''2010-12-31'' QS) (\<lambda>ds.
       generate_from ds g [Text ''Generating dummy Quarterly GDP Growth Data...''])"

text \<open>
  \<^verbatim>\<open>
  print("\n--- Descriptive Statistics (GDP Growth Rate) ---")
  print(df['GDP_Growth_Rate'].describe())
  print(f"\nMissing values check: {df.isnull().sum().sum()}")
  print(f"Index type check: The data is time-series indexed: {isinstance(df.index, pd.DatetimeIndex)}")
  \<close>
\<close>

definition report :: "env \<Rightarrow> error + env" where
  "report s =
     (let s1 = print (Text (CHR 0x0A # ''--- Descriptive Statistics (GDP Growth Rate) ---'')) s
      in and_then (getitem (df s1) ''GDP_Growth_Rate'') (\<lambda>c.
           (let s2 = print (Table (describe c)) s1;
                s3 = print (Text (CHR 0x0A # ''Missing values check: ''
                                  @ str_nat (isnull_sum_sum (df s2)))) s2
            in Inr (print (Text (''Index type check: The data is time-series indexed: ''
                                 @ str_bool (is_DatetimeIndex (index (df s3))))) s3))))"

definition render :: "env \<Rightarrow> error + env" where
  "render s =
     (let fig = \<lparr>style = ''seaborn-v0_8-darkgrid'', figsize = (12, 6), lines = [], spans = [],
                 vlines = [], title = [], xlabel = [], ylabel = [], legend_loc = [],
                 xticks_rotation = 0, tight = False\<rparr>
      in and_then (getitem (df s) ''GDP_Growth_Rate'') (\<lambda>y.
         and_then (plot fig (index (df s)) y ''Quarterly GDP Growth (%)'') (\<lambda>fig.
         and_then (to_datetime ''2007-12-01'') (\<lambda>event_start.
         and_then (to_datetime ''2009-06-01'') (\<lambda>event_end.
         and_then (to_datetime ''2007-12-27'') (\<lambda>election.
           Inr (s\<lparr>shown := shown s @
                  [fig\<lparr>spans := [(event_start, event_end, ''Post-Election Crisis Period'')],
                       vlines := [(election, ''Election Date (Dec 2007)'')],
                       title := ''Time Series EDA: Kenya GDP Growth Rate (2005-2010)'',
                       xlabel := ''Date (Quarterly)'',
                       ylabel := ''GDP Growth Rate (%)'',
                       legend_loc := ''lower left'',
                       xticks_rotation := 45,
                       tight := True\<rparr>]\<rparr>)))))))"

definition script :: "random_state \<Rightarrow> error + env" where
  "script g =
     and_then (generate g) (\<lambda>s.
     and_then (report s) (\<lambda>s.
     and_then (render s) (\<lambda>s.
       Inr (print (Text (CHR 0x0A # ''EDA complete. The visualization clearly shows the simulated shock and recovery period, ready for deeper statistical modeling in R.'')) s))))"

section \<open>The reporter over an object store\<close>

















section \<open>Reference values used in the statements\<close>

text \<open>
  The constants below are not part of the script. They name the values the script is shown
  to compute (\<open>quarterly_axis\<close>, \<open>growth_values\<close>, \<open>generated\<close>), the quantities the
  statements measure (\<open>window_mean\<close>, \<open>outside_mean\<close>, \<open>table_shape\<close>), and concrete
  inputs (\<open>zero_draws\<close>, \<open>offset_draws\<close>, \<open>one_row\<close>, \<open>one_row_store\<close>).
\<close>

definition growth_values :: "random_state \<Rightarrow> float64 list" where
  "growth_values g =
     map2 fadd (isub_slice (fst (normal 5.0 0.5 24 g)) 12 16 (Fin 4.5))
               (fst (normal 0 0.3 24 (snd (normal 5.0 0.5 24 g))))"

definition zero_draws :: random_state where
  "zero_draws = (\<lambda>i. 0)"

definition quarterly_axis :: "date list" where
  "quarterly_axis =
     [Date 2005 1 1, Date 2005 4 1, Date 2005 7 1, Date 2005 10 1,
      Date 2006 1 1, Date 2006 4 1, Date 2006 7 1, Date 2006 10 1,
      Date 2007 1 1, Date 2007 4 1, Date 2007 7 1, Date 2007 10 1,
      Date 2008 1 1, Date 2008 4 1, Date 2008 7 1, Date 2008 10 1,
      Date 2009 1 1, Date 2009 4 1, Date 2009 7 1, Date 2009 10 1,
      Date 2010 1 1, Date 2010 4 1, Date 2010 7 1, Date 2010 10 1]"

definition generated :: "random_state \<Rightarrow> env" where
  "generated g =
     \<lparr>dates = quarterly_axis, n_points = 24,
      baseline_growth = isub_slice (fst (normal 5.0 0.5 24 g)) 12 16 (Fin 4.5),
      shock_period_start = 12, shock_period_end = 16,
      df = \<lparr>index = DatetimeIndex quarterly_axis,
            columns = [(''GDP_Growth_Rate'', FloatCol (growth_values g))]\<rparr>,
      random = snd (normal 0 0.3 24 (snd (normal 5.0 0.5 24 g))),
      stdout = [Text ''Generating dummy Quarterly GDP Growth Data...'',
                Text ''DataFrame created with 24 quarterly observations.''],
      shown = []\<rparr>"


definition offset_draws :: random_state where
  "offset_draws = (\<lambda>i. if 12 \<le> i \<and> i < 16 then 2 else - 2)"

definition values_at :: "float64 list \<Rightarrow> nat list \<Rightarrow> float64 list" where
  "values_at a idx = map (\<lambda>i. a ! i) idx"

definition window_mean :: "env \<Rightarrow> float64" where
  "window_mean s =
     series_mean (dropna (values_at (baseline_growth s)
                            [shock_period_start s..<shock_period_end s]))"

definition outside_mean :: "env \<Rightarrow> float64" where
  "outside_mean s =
     series_mean (dropna (values_at (baseline_growth s)
                            ([0..<shock_period_start s] @ [shock_period_end s..<n_points s])))"

definition one_row :: "date \<Rightarrow> float64 \<Rightarrow> env" where
  "one_row d x =
     \<lparr>dates = [d], n_points = 1, baseline_growth = [x],
      shock_period_start = 0, shock_period_end = 0,
      df = \<lparr>index = DatetimeIndex [d], columns = [(''GDP_Growth_Rate'', FloatCol [x])]\<rparr>,
      random = zero_draws, stdout = [], shown = []\<rparr>"


section \<open>Evaluating the generator\<close>

lemma date_range_script: "date_range ''2005-01-01'' ''2010-12-31'' QS = Inr quarterly_axis"
  by (simp add: date_range_def and_then_def to_datetime_def digit_def days_in_month_def
      rollforward_def is_quarter_start_def month_index_def month_start_def date_le_def
      quarterly_axis_def quarter_starts.simps)

lemma length_quarterly_axis: "length quarterly_axis = 24"
  by (simp add: quarterly_axis_def)

lemma to_datetime_2008: "to_datetime ''2008-01-01'' = Inr (Date 2008 1 1)"
  by (simp add: to_datetime_def digit_def days_in_month_def)

lemma to_datetime_2009: "to_datetime ''2009-01-01'' = Inr (Date 2009 1 1)"
  by (simp add: to_datetime_def digit_def days_in_month_def)

lemma index_of_2008: "index_of_date quarterly_axis ''2008-01-01'' = Inr 12"
  by (simp add: index_of_date_def and_then_def to_datetime_2008
      quarterly_axis_def eq_mask_def np_where_def item0_def)

lemma index_of_2009: "index_of_date quarterly_axis ''2009-01-01'' = Inr 16"
  by (simp add: index_of_date_def and_then_def to_datetime_2009
      quarterly_axis_def eq_mask_def np_where_def item0_def)

lemma length_normal: "length (fst (normal loc scale n g)) = n"
  by (simp add: normal_def)

lemma nth_normal: "i < n \<Longrightarrow> fst (normal loc scale n g) ! i = Fin (loc + scale * g i)"
  by (simp add: normal_def)

lemma snd_normal: "snd (normal loc scale n g) i = g (n + i)"
  by (simp add: normal_def)

lemma length_isub_slice: "length (isub_slice a lo hi c) = length a"
  by (simp add: isub_slice_def)

lemma nth_isub_slice:
  "i < length a \<Longrightarrow>
   isub_slice a lo hi c ! i = (if lo \<le> i \<and> i < hi then fsub (a ! i) c else a ! i)"
  by (simp add: isub_slice_def)

lemma length_growth_values: "length (growth_values g) = 24"
  by (simp add: growth_values_def length_normal length_isub_slice)

lemma nth_growth_values:
  assumes "i < 24"
  shows "growth_values g ! i =
         Fin (5.0 + 0.5 * g i - (if 12 \<le> i \<and> i < 16 then 4.5 else 0) + (0 + 0.3 * g (24 + i)))"
  using assms
  by (simp add: growth_values_def length_normal length_isub_slice nth_isub_slice nth_normal
      snd_normal)

lemma item0_where:
  "item0 (np_where (eq_mask ds t)) =
     (if t \<in> set ds then Inr (hd (np_where (eq_mask ds t))) else Inl IndexError)"
proof -
  have "np_where (eq_mask ds t) = [] \<longleftrightarrow> t \<notin> set ds"
    by (auto simp: np_where_def eq_mask_def filter_empty_conv in_set_conv_nth)
  then show ?thesis
    by (cases "np_where (eq_mask ds t)") (auto simp: item0_def)
qed

lemma axis_steps:
  "list_all (\<lambda>p. date_less (fst p) (snd p) \<and> snd p = add_months (fst p) 3)
     (zip quarterly_axis (tl quarterly_axis))"
  by (simp add: quarterly_axis_def date_less_def date_le_def add_months_def month_index_def
      days_in_month_def)


lemma generate_eq: "generate g = Inr (generated g)"
  unfolding generate_def generate_from_def date_range_script generated_def
  by (simp add: and_then_def Let_def index_of_2008 index_of_2009 length_quarterly_axis
      np_add_def length_normal length_isub_slice DataFrame_def col_len_def set_index_def
      print_def len_def str_nat.simps digit_char_def growth_values_def del: upt_rec_numeral)

lemma growth_values_not_nan: "NaN \<notin> set (growth_values g)"
proof
  assume "NaN \<in> set (growth_values g)"
  then obtain i where i: "i < 24" "growth_values g ! i = NaN"
    by (auto simp: in_set_conv_nth length_growth_values)
  then show False
    by (simp add: nth_growth_values)
qed

lemma index_of_date_2008:
  "index_of_date ds ''2008-01-01'' = item0 (np_where (eq_mask ds (Date 2008 1 1)))"
  by (simp add: index_of_date_def and_then_def to_datetime_2008)

lemma index_of_date_2009:
  "index_of_date ds ''2009-01-01'' = item0 (np_where (eq_mask ds (Date 2009 1 1)))"
  by (simp add: index_of_date_def and_then_def to_datetime_2009)

lemma generate_from_fail:
  assumes "Date 2008 1 1 \<notin> set ds \<or> Date 2009 1 1 \<notin> set ds"
  shows "generate_from ds g out = Inl IndexError"
  using assms
  by (auto simp: generate_from_def Let_def and_then_def index_of_date_2008 index_of_date_2009
      item0_where)

lemma generate_from_ok:
  assumes "Date 2008 1 1 \<in> set ds" and "Date 2009 1 1 \<in> set ds"
  shows "\<exists>s. generate_from ds g out = Inr s"
  using assms
  by (simp add: generate_from_def Let_def and_then_def index_of_date_2008 index_of_date_2009
      item0_where np_add_def length_normal length_isub_slice DataFrame_def col_len_def
      set_index_def)

section \<open>Evaluating the reporter and the renderer\<close>

lemma report_growth:
  assumes "df s = \<lparr>index = ix, columns = [(''GDP_Growth_Rate'', FloatCol xs)]\<rparr>"
  shows "report s = Inr (s\<lparr>stdout := stdout s @
           [Text (CHR 0x0A # ''--- Descriptive Statistics (GDP Growth Rate) ---''),
            Table (describe (FloatCol xs)),
            Text (CHR 0x0A # ''Missing values check: '' @ str_nat (isnull_sum_sum (df s))),
            Text (''Index type check: The data is time-series indexed: ''
                  @ str_bool (is_DatetimeIndex ix))]\<rparr>)"
  using assms
  by (simp add: report_def Let_def print_def and_then_def getitem_def)

lemma render_growth:
  assumes "df s = \<lparr>index = DatetimeIndex ds, columns = [(''GDP_Growth_Rate'', FloatCol xs)]\<rparr>"
    and "length ds = length xs"
  shows "\<exists>fig. render s = Inr (s\<lparr>shown := shown s @ [fig]\<rparr>)"
  using assms
  by (simp add: render_def Let_def and_then_def getitem_def plot_def index_len_def col_len_def
      to_datetime_def digit_def days_in_month_def) blast

lemma isnull_generated: "isnull_sum_sum (df (generated g)) = 0"
  using growth_values_not_nan [of g]
  by (auto simp: generated_def isnull_sum_sum_def isnull_def filter_empty_conv)

lemma script_result:
  "\<exists>fig. script g = Inr ((generated g)
      \<lparr>stdout :=
         [Text ''Generating dummy Quarterly GDP Growth Data...'',
          Text ''DataFrame created with 24 quarterly observations.'',
          Text (CHR 0x0A # ''--- Descriptive Statistics (GDP Growth Rate) ---''),
          Table (describe (FloatCol (growth_values g))),
          Text (CHR 0x0A # ''Missing values check: 0''),
          Text ''Index type check: The data is time-series indexed: True'',
          Text (CHR 0x0A # ''EDA complete. The visualization clearly shows the simulated shock and recovery period, ready for deeper statistical modeling in R.'')],
       shown := [fig]\<rparr>)"
proof -
  let ?t = "\<lparr>index = DatetimeIndex quarterly_axis,
             columns = [(''GDP_Growth_Rate'', FloatCol (growth_values g))]\<rparr>"
  have d: "df (generated g) = ?t"
    by (simp add: generated_def)
  have r: "report (generated g) = Inr ((generated g)\<lparr>stdout := stdout (generated g) @
           [Text (CHR 0x0A # ''--- Descriptive Statistics (GDP Growth Rate) ---''),
            Table (describe (FloatCol (growth_values g))),
            Text (CHR 0x0A # ''Missing values check: 0''),
            Text ''Index type check: The data is time-series indexed: True'']\<rparr>)"
    (is "_ = Inr ?s1")
    using report_growth [OF d]
    by (simp add: isnull_generated str_nat.simps digit_char_def str_bool_def
        is_DatetimeIndex_def)
  have "df ?s1 = ?t"
    by (simp add: generated_def)
  from render_growth [OF this] obtain fig where
    f: "render ?s1 = Inr (?s1\<lparr>shown := shown ?s1 @ [fig]\<rparr>)"
    by (auto simp: length_quarterly_axis length_growth_values)
  show ?thesis
    by (rule exI [of _ fig])
       (simp add: script_def generate_eq and_then_def r f print_def, simp add: generated_def)
qed


section \<open>Means of bounded values\<close>

lemma sum_list_between:
  fixes xs :: "real list"
  assumes "\<forall>x\<in>set xs. lo \<le> x \<and> x \<le> hi"
  shows "real (length xs) * lo \<le> sum_list xs \<and> sum_list xs \<le> real (length xs) * hi"
  using assms by (induction xs) (auto simp: algebra_simps)

lemma mean_between:
  fixes xs :: "real list"
  assumes "\<forall>x\<in>set xs. lo \<le> x \<and> x \<le> hi" and "xs \<noteq> []"
  shows "lo \<le> sum_list xs / real (length xs) \<and> sum_list xs / real (length xs) \<le> hi"
proof -
  have n: "0 < real (length xs)"
    using assms(2) by simp
  from sum_list_between [OF assms(1)] show ?thesis
    using n by (simp add: pos_le_divide_eq pos_divide_le_eq mult.commute)
qed

lemma dropna_Fin: "dropna (map (\<lambda>i. Fin (f i)) idx) = map f idx"
  by (induction idx) simp_all

lemma window_values:
  "values_at (baseline_growth (generated g)) [12..<16] =
     map (\<lambda>i. Fin (5.0 + 0.5 * g i - 4.5)) [12..<16]"
  unfolding values_at_def generated_def
  by (rule map_cong) (auto simp: nth_isub_slice length_normal nth_normal)

lemma outside_values:
  "values_at (baseline_growth (generated g)) ([0..<12] @ [16..<24]) =
     map (\<lambda>i. Fin (5.0 + 0.5 * g i)) ([0..<12] @ [16..<24])"
  unfolding values_at_def generated_def
  by (rule map_cong) (auto simp: nth_isub_slice length_normal nth_normal)

lemma window_mean_generated:
  "window_mean (generated g) = Fin (sum_list (map (\<lambda>i. 5.0 + 0.5 * g i) [12..<16]) / 4 - 4.5)"
proof -
  have "window_mean (generated g) =
          series_mean (dropna (values_at (baseline_growth (generated g)) [12..<16]))"
    by (simp add: window_mean_def generated_def)
  also have "\<dots> = series_mean (map (\<lambda>i. 5.0 + 0.5 * g i - 4.5) [12..<16])"
    by (simp only: window_values dropna_Fin)
  also have "\<dots> = Fin (sum_list (map (\<lambda>i. 5.0 + 0.5 * g i) [12..<16]) / 4 - 4.5)"
    by (simp add: series_mean_def)
  finally show ?thesis .
qed

lemma outside_mean_generated:
  "outside_mean (generated g) =
     Fin (sum_list (map (\<lambda>i. 5.0 + 0.5 * g i) ([0..<12] @ [16..<24])) / 20)"
proof -
  have "outside_mean (generated g) =
          series_mean (dropna (values_at (baseline_growth (generated g)) ([0..<12] @ [16..<24])))"
    by (simp add: outside_mean_def generated_def)
  also have "\<dots> = series_mean (map (\<lambda>i. 5.0 + 0.5 * g i) ([0..<12] @ [16..<24]))"
    by (simp only: outside_values dropna_Fin)
  also have "\<dots> = Fin (sum_list (map (\<lambda>i. 5.0 + 0.5 * g i) ([0..<12] @ [16..<24])) / 20)"
    by (simp add: series_mean_def)
  finally show ?thesis .
qed

lemma upt_0_12: "[0..<12] = [0, 1, 2, 3, 4, 5, 6, 7, 8, 9, 10, 11 :: nat]"
  by (simp add: upt_conv_Cons)

lemma gap_bound:
  fixes a b :: real
  assumes "4.25 \<le> a" and "a \<le> 5.75" and "4.25 \<le> b" and "b \<le> 5.75"
  shows "\<bar>(b - (a - 4.5)) - 4.5\<bar> \<le> 1.5"
proof -
  have "(17 / 4 :: real) \<le> a" "a \<le> 23 / 4" "(17 / 4 :: real) \<le> b" "b \<le> 23 / 4"
    using assms by simp_all
  then show ?thesis by linarith
qed

lemma describe_single:
  "describe (FloatCol [Fin v]) =
     NumericSummary \<lparr>count = 1, mean = Fin v, std = NaN, min_val = Fin v, pct25 = Fin v,
                     pct50 = Fin v, pct75 = Fin v, max_val = Fin v\<rparr>"
  by (simp add: describe_def series_mean_def series_std_def series_min_def series_max_def
      quantile_def)

lemma describe_single_nan:
  "describe (FloatCol [NaN]) =
     NumericSummary \<lparr>count = 0, mean = NaN, std = NaN, min_val = NaN, pct25 = NaN,
                     pct50 = NaN, pct75 = NaN, max_val = NaN\<rparr>"
  by (simp add: describe_def series_mean_def series_std_def series_min_def series_max_def
      quantile_def)

section \<open>Evaluating the reporter over the store\<close>








section \<open>Claims about the generated series\<close>

text \<open>
  Claim C1. For every sequence of draws the growth series is index-aligned with the date
  axis, and the value at each index is the baseline draw \<open>5.0 + 0.5 * z\<close>, minus 4.5
  exactly when the index lies in the half-open range from the index of 2008-01-01 to the
  index of 2009-01-01, plus a noise draw \<open>0 + 0.3 * z'\<close> taken from a later position of
  the random stream; the noise is added at every index, the shocked ones included.
  Floats are idealised as reals, and a draw from Normal(\<open>loc\<close>, \<open>scale\<close>) is
  \<open>loc + scale * z\<close> for the next standard-normal variate \<open>z\<close> of the stream.
\<close>

theorem growth_series_pointwise:
  "\<exists>s vals. generate g = Inr s \<and> index (df s) = DatetimeIndex (dates s) \<and>
     getitem (df s) ''GDP_Growth_Rate'' = Inr (FloatCol vals) \<and>
     length vals = length (dates s) \<and>
     dates s ! shock_period_start s = Date 2008 1 1 \<and>
     dates s ! shock_period_end s = Date 2009 1 1 \<and>
     (\<forall>i<length vals.
        vals ! i = Fin (5.0 + 0.5 * g i
                        - (if shock_period_start s \<le> i \<and> i < shock_period_end s then 4.5 else 0)
                        + (0 + 0.3 * g (length vals + i))))"
proof -
  have a: "quarterly_axis ! 12 = Date 2008 1 1" "quarterly_axis ! 16 = Date 2009 1 1"
    by (simp_all add: quarterly_axis_def)
  have "\<forall>i<length (growth_values g).
          growth_values g ! i =
            Fin (5.0 + 0.5 * g i - (if 12 \<le> i \<and> i < 16 then 4.5 else 0)
                 + (0 + 0.3 * g (length (growth_values g) + i)))"
    using nth_growth_values [of _ g] by (simp add: length_growth_values)
  then show ?thesis
    using a
    by (simp add: generate_eq generated_def getitem_def length_growth_values
        length_quarterly_axis)
qed

theorem growth_series_pointwise_witness:
  "\<exists>s vals. generate zero_draws = Inr s \<and>
     getitem (df s) ''GDP_Growth_Rate'' = Inr (FloatCol vals) \<and>
     vals ! 0 = Fin 5 \<and> vals ! 12 = Fin 0.5 \<and> vals ! 15 = Fin 0.5 \<and> vals ! 16 = Fin 5"
proof -
  from growth_series_pointwise [of zero_draws] obtain s vals where
    s: "generate zero_draws = Inr s"
       "getitem (df s) ''GDP_Growth_Rate'' = Inr (FloatCol vals)"
       "length vals = length (dates s)"
       "\<forall>i<length vals.
          vals ! i = Fin (5.0 + 0.5 * zero_draws i
                        - (if shock_period_start s \<le> i \<and> i < shock_period_end s then 4.5 else 0)
                        + (0 + 0.3 * zero_draws (length vals + i)))"
    by blast
  from s(1) have e: "s = generated zero_draws"
    by (simp add: generate_eq)
  then have l: "length vals = 24" "shock_period_start s = 12" "shock_period_end s = 16"
    using s(3) by (simp_all add: generated_def length_quarterly_axis)
  have "vals ! 0 = Fin 5" "vals ! 12 = Fin 0.5" "vals ! 15 = Fin 0.5" "vals ! 16 = Fin 5"
    using s(4) l by (simp_all add: zero_draws_def)
  with s(1,2) show ?thesis by blast
qed

text \<open>
  Claim C2. The time axis built by the script (quarter-start dates from 2005-01-01 to
  2010-12-31 at quarterly frequency) has exactly 24 elements, is strictly increasing, and
  every element is exactly three months after its predecessor.
\<close>

theorem time_axis_quarterly:
  "\<exists>ds. date_range ''2005-01-01'' ''2010-12-31'' QS = Inr ds \<and> length ds = 24 \<and>
        hd ds = Date 2005 1 1 \<and> last ds = Date 2010 10 1 \<and> list_all is_quarter_start ds \<and>
        (\<forall>i. Suc i < length ds \<longrightarrow>
             date_less (ds ! i) (ds ! Suc i) \<and> ds ! Suc i = add_months (ds ! i) 3)"
proof -
  let ?ds = quarterly_axis
  have steps: "\<forall>i. Suc i < length ?ds \<longrightarrow>
                 date_less (?ds ! i) (?ds ! Suc i) \<and> ?ds ! Suc i = add_months (?ds ! i) 3"
  proof (intro allI impI)
    fix i assume i: "Suc i < length ?ds"
    then have "i < length (zip ?ds (tl ?ds))" by simp
    with axis_steps
    have a: "date_less (fst (zip ?ds (tl ?ds) ! i)) (snd (zip ?ds (tl ?ds) ! i)) \<and>
             snd (zip ?ds (tl ?ds) ! i) = add_months (fst (zip ?ds (tl ?ds) ! i)) 3"
      unfolding list_all_length by blast
    have z: "zip ?ds (tl ?ds) ! i = (?ds ! i, ?ds ! Suc i)"
      using i by (simp add: nth_tl)
    from a show "date_less (?ds ! i) (?ds ! Suc i) \<and> ?ds ! Suc i = add_months (?ds ! i) 3"
      unfolding z fst_conv snd_conv .
  qed
  have ends: "hd ?ds = Date 2005 1 1" "last ?ds = Date 2010 10 1" "list_all is_quarter_start ?ds"
    by (simp_all add: quarterly_axis_def is_quarter_start_def)
  show ?thesis
    using date_range_script length_quarterly_axis ends steps by blast
qed

theorem time_axis_quarterly_witness:
  "Suc 0 < length quarterly_axis \<and> date_less (quarterly_axis ! 0) (quarterly_axis ! Suc 0) \<and>
   quarterly_axis ! Suc 0 = add_months (quarterly_axis ! 0) 3"
proof -
  from time_axis_quarterly obtain ds where
    d: "date_range ''2005-01-01'' ''2010-12-31'' QS = Inr ds" "length ds = 24"
       "\<forall>i. Suc i < length ds \<longrightarrow>
            date_less (ds ! i) (ds ! Suc i) \<and> ds ! Suc i = add_months (ds ! i) 3"
    by blast
  from d(1) have "ds = quarterly_axis" by (simp add: date_range_script)
  moreover from d(2) have "Suc 0 < length ds" by simp
  ultimately show ?thesis using d(3) by blast
qed

text \<open>
  Claim C10. With the constants of the script the shock-start lookup gives index 12 and the
  shock-end lookup gives index 16, so 4.5 is subtracted from the baseline at exactly the four
  indices 12 to 15, and these are the four quarters of the calendar year 2008.
\<close>

theorem shock_window_indices:
  "\<exists>s. generate g = Inr s \<and> shock_period_start s = 12 \<and> shock_period_end s = 16 \<and>
       length (baseline_growth s) = 24 \<and>
       (\<forall>i<24. baseline_growth s ! i =
                 (if 12 \<le> i \<and> i \<le> 15 then Fin (5.0 + 0.5 * g i - 4.5)
                  else Fin (5.0 + 0.5 * g i))) \<and>
       map (\<lambda>i. dates s ! i) [12, 13, 14, 15] =
         [Date 2008 1 1, Date 2008 4 1, Date 2008 7 1, Date 2008 10 1] \<and>
       filter (\<lambda>d. year d = 2008) (dates s) =
         [Date 2008 1 1, Date 2008 4 1, Date 2008 7 1, Date 2008 10 1]"
proof -
  have len: "length (isub_slice (fst (normal 5.0 0.5 24 g)) 12 16 (Fin 4.5)) = 24"
    by (simp add: length_isub_slice length_normal)
  have pts: "\<forall>i<24. isub_slice (fst (normal 5.0 0.5 24 g)) 12 16 (Fin 4.5) ! i =
                 (if 12 \<le> i \<and> i \<le> 15 then Fin (5.0 + 0.5 * g i - 4.5)
                  else Fin (5.0 + 0.5 * g i))"
    by (auto simp: nth_isub_slice length_normal nth_normal)
  have q: "map (\<lambda>i. quarterly_axis ! i) [12, 13, 14, 15] =
             [Date 2008 1 1, Date 2008 4 1, Date 2008 7 1, Date 2008 10 1]"
          "filter (\<lambda>d. year d = 2008) quarterly_axis =
             [Date 2008 1 1, Date 2008 4 1, Date 2008 7 1, Date 2008 10 1]"
    by (simp_all add: quarterly_axis_def)
  show ?thesis
    using len pts q by (simp add: generate_eq generated_def)
qed

theorem shock_window_indices_witness:
  "\<exists>s. generate zero_draws = Inr s \<and> baseline_growth s ! 12 = Fin 0.5 \<and>
       baseline_growth s ! 11 = Fin 5 \<and> baseline_growth s ! 16 = Fin 5"
proof -
  from shock_window_indices [of zero_draws] obtain s where
    s: "generate zero_draws = Inr s"
       "\<forall>i<24. baseline_growth s ! i =
                 (if 12 \<le> i \<and> i \<le> 15 then Fin (5.0 + 0.5 * zero_draws i - 4.5)
                  else Fin (5.0 + 0.5 * zero_draws i))"
    by blast
  have "baseline_growth s ! 12 = Fin 0.5" "baseline_growth s ! 11 = Fin 5"
       "baseline_growth s ! 16 = Fin 5"
    using s(2) by (simp_all add: zero_draws_def)
  with s(1) show ?thesis by blast
qed

text \<open>
  Claim C3. For any date axis, generation from that axis stops with the index-not-found error
  if and only if 2008-01-01 or 2009-01-01 is absent from the axis, and it stops with no other
  error. The axis that the script builds from its constants contains both dates, so
  generation, and the whole script, always complete.
\<close>

theorem shock_lookup_failure:
  "(generate_from ds g out = Inl IndexError \<longleftrightarrow>
      Date 2008 1 1 \<notin> set ds \<or> Date 2009 1 1 \<notin> set ds) \<and>
   generate_from ds g out \<noteq> Inl ValueError \<and> generate_from ds g out \<noteq> Inl KeyError \<and>
   date_range ''2005-01-01'' ''2010-12-31'' QS = Inr quarterly_axis \<and>
   Date 2008 1 1 \<in> set quarterly_axis \<and> Date 2009 1 1 \<in> set quarterly_axis \<and>
   (\<exists>s. generate g = Inr s) \<and> (\<exists>s. script g = Inr s)"
proof -
  have m: "Date 2008 1 1 \<in> set quarterly_axis" "Date 2009 1 1 \<in> set quarterly_axis"
    by (simp_all add: quarterly_axis_def)
  have f: "(generate_from ds g out = Inl IndexError \<longleftrightarrow>
              Date 2008 1 1 \<notin> set ds \<or> Date 2009 1 1 \<notin> set ds) \<and>
           generate_from ds g out \<noteq> Inl ValueError \<and> generate_from ds g out \<noteq> Inl KeyError"
  proof (cases "Date 2008 1 1 \<in> set ds \<and> Date 2009 1 1 \<in> set ds")
    case True
    then obtain s where "generate_from ds g out = Inr s"
      using generate_from_ok [of ds g out] by blast
    with True show ?thesis by simp
  next
    case False
    then have "generate_from ds g out = Inl IndexError"
      by (intro generate_from_fail) blast
    with False show ?thesis by simp
  qed
  have s: "\<exists>s. script g = Inr s"
    using script_result [of g] by blast
  show ?thesis
    using m f s date_range_script generate_eq [of g] by blast
qed

theorem shock_lookup_failure_witness:
  "generate_from [Date 2008 1 1] zero_draws [] = Inl IndexError \<and>
   generate_from [Date 2008 1 1, Date 2008 4 1, Date 2008 7 1, Date 2008 10 1, Date 2009 1 1]
     zero_draws [] \<noteq> Inl IndexError"
  using shock_lookup_failure [of "[Date 2008 1 1]" zero_draws "[]"]
    shock_lookup_failure
      [of "[Date 2008 1 1, Date 2008 4 1, Date 2008 7 1, Date 2008 10 1, Date 2009 1 1]"
          zero_draws "[]"]
  by simp

text \<open>
  Claim C5. For every sequence of draws the constructed table has no missing value: its
  only column holds no NaN, the missing-value count is 0, and the reporter prints that count
  as 0.
\<close>

theorem no_missing_values:
  "\<exists>s vals. script g = Inr s \<and> isnull_sum_sum (df s) = 0 \<and>
     getitem (df s) ''GDP_Growth_Rate'' = Inr (FloatCol vals) \<and> NaN \<notin> set vals \<and>
     map fst (columns (df s)) = [''GDP_Growth_Rate''] \<and>
     stdout s ! 4 = Text (CHR 0x0A # ''Missing values check: 0'')"
proof -
  from script_result [of g] obtain fig where
    "script g = Inr ((generated g)
      \<lparr>stdout :=
         [Text ''Generating dummy Quarterly GDP Growth Data...'',
          Text ''DataFrame created with 24 quarterly observations.'',
          Text (CHR 0x0A # ''--- Descriptive Statistics (GDP Growth Rate) ---''),
          Table (describe (FloatCol (growth_values g))),
          Text (CHR 0x0A # ''Missing values check: 0''),
          Text ''Index type check: The data is time-series indexed: True'',
          Text (CHR 0x0A # ''EDA complete. The visualization clearly shows the simulated shock and recovery period, ready for deeper statistical modeling in R.'')],
       shown := [fig]\<rparr>)"
    by blast
  then show ?thesis
    using isnull_generated [of g] growth_values_not_nan [of g]
    by (simp add: generated_def getitem_def)
qed


section \<open>Claims about the baseline means\<close>

text \<open>
  Claim C4. For every sequence of baseline draws the mean of the baseline-only series (after
  the shock, before the noise) over the shock window is lower than its mean outside the
  window by exactly 4.5 plus the difference between the mean of the raw draws outside the
  window and the mean of the raw draws inside it. The gap is therefore within 1.5 of 4.5
  whenever every baseline draw lies within 0.75 of 5.0.
\<close>

theorem baseline_mean_gap:
  "\<exists>s mw mo. generate g = Inr s \<and> window_mean s = Fin mw \<and> outside_mean s = Fin mo \<and>
     mo - mw = 4.5 + (sum_list (map (\<lambda>i. 5.0 + 0.5 * g i) ([0..<12] @ [16..<24])) / 20
                    - sum_list (map (\<lambda>i. 5.0 + 0.5 * g i) [12..<16]) / 4) \<and>
     ((\<forall>i<24. \<bar>0.5 * g i\<bar> \<le> 0.75) \<longrightarrow> \<bar>(mo - mw) - 4.5\<bar> \<le> 1.5)"
proof -
  let ?W = "map (\<lambda>i. 5.0 + 0.5 * g i) [12..<16]"
  let ?O = "map (\<lambda>i. 5.0 + 0.5 * g i) ([0..<12] @ [16..<24])"
  let ?mw = "sum_list ?W / 4 - 4.5"
  let ?mo = "sum_list ?O / 20"
  have gap: "?mo - ?mw = 4.5 + (?mo - sum_list ?W / 4)"
    by simp
  have bound: "\<bar>(?mo - ?mw) - 4.5\<bar> \<le> 1.5" if h: "\<forall>i<24. \<bar>0.5 * g i\<bar> \<le> 0.75"
  proof -
    have b: "4.25 \<le> 5.0 + 0.5 * g i \<and> 5.0 + 0.5 * g i \<le> 5.75" if "i < 24" for i
      using h that by (auto simp: abs_le_iff)
    have "\<forall>x\<in>set ?W. 4.25 \<le> x \<and> x \<le> 5.75"
      using b by auto
    from mean_between [OF this] have W: "4.25 \<le> sum_list ?W / 4" "sum_list ?W / 4 \<le> 5.75"
      by simp_all
    have "\<forall>x\<in>set ?O. 4.25 \<le> x \<and> x \<le> 5.75"
      using b by auto
    from mean_between [OF this] have O: "4.25 \<le> ?mo" "?mo \<le> 5.75"
      by simp_all
    from gap_bound [OF W O] show ?thesis .
  qed
  show ?thesis
    using generate_eq [of g] window_mean_generated [of g] outside_mean_generated [of g]
      gap bound
    by blast
qed

theorem baseline_mean_gap_witness:
  "\<exists>s mw mo. generate zero_draws = Inr s \<and> window_mean s = Fin mw \<and> outside_mean s = Fin mo \<and>
     \<bar>(mo - mw) - 4.5\<bar> \<le> 1.5"
proof -
  have "\<forall>i<24. \<bar>0.5 * zero_draws i\<bar> \<le> 0.75"
    by (simp add: zero_draws_def)
  with baseline_mean_gap [of zero_draws] show ?thesis
    by blast
qed

text \<open>
  Without a bound on the draws the gap can leave the tolerance: with the four window draws
  two standard deviations above 5.0 and the other twenty two standard deviations below it,
  the window mean is 1.5 and the outside mean is 4, a gap of 2.5.
\<close>

theorem baseline_gap_counterexample:
  "generate offset_draws = Inr (generated offset_draws) \<and>
   window_mean (generated offset_draws) = Fin 1.5 \<and>
   outside_mean (generated offset_draws) = Fin 4 \<and>
   \<not> \<bar>(4 - 1.5) - 4.5\<bar> \<le> (1.5 :: real)"
  by (simp add: generate_eq window_mean_generated outside_mean_generated offset_draws_def
      upt_0_12)

section \<open>Claims about the reporter and the console output\<close>



text \<open>
  Claim C7. A run of the script writes seven outputs to the console, which form six messages
  in this order: the generation notice, the table-size notice, the descriptive-statistics
  block (a header line, then the statistics table), the missing-value count, the index-type
  boolean, and the completion notice.
\<close>

theorem stdout_sequence:
  "\<exists>s vals. script g = Inr s \<and>
     getitem (df s) ''GDP_Growth_Rate'' = Inr (FloatCol vals) \<and>
     stdout s =
       [Text ''Generating dummy Quarterly GDP Growth Data...'',
        Text ''DataFrame created with 24 quarterly observations.'',
        Text (CHR 0x0A # ''--- Descriptive Statistics (GDP Growth Rate) ---''),
        Table (describe (FloatCol vals)),
        Text (CHR 0x0A # ''Missing values check: 0''),
        Text ''Index type check: The data is time-series indexed: True'',
        Text (CHR 0x0A # ''EDA complete. The visualization clearly shows the simulated shock and recovery period, ready for deeper statistical modeling in R.'')]"
proof -
  from script_result [of g] obtain fig where
    "script g = Inr ((generated g)
      \<lparr>stdout :=
         [Text ''Generating dummy Quarterly GDP Growth Data...'',
          Text ''DataFrame created with 24 quarterly observations.'',
          Text (CHR 0x0A # ''--- Descriptive Statistics (GDP Growth Rate) ---''),
          Table (describe (FloatCol (growth_values g))),
          Text (CHR 0x0A # ''Missing values check: 0''),
          Text ''Index type check: The data is time-series indexed: True'',
          Text (CHR 0x0A # ''EDA complete. The visualization clearly shows the simulated shock and recovery period, ready for deeper statistical modeling in R.'')],
       shown := [fig]\<rparr>)"
    by blast
  then show ?thesis
    by (simp add: generated_def getitem_def)
qed

text \<open>
  The number of outputs of a run is seven, one for each \<open>print\<close> of the script, and so
  not five.
\<close>

theorem stdout_five_counterexample:
  "map_sum id (length \<circ> stdout) (script zero_draws) = Inr 7 \<and>
   map_sum id (length \<circ> stdout) (script zero_draws) \<noteq> Inr 5"
proof -
  from script_result [of zero_draws] obtain s where
    "script zero_draws = Inr s" "length (stdout s) = 7"
    by auto
  then show ?thesis by simp
qed

text \<open>
  Claim C9. Given a table with exactly one row whose growth-rate cell holds a number, the
  reporter does not fail: the count is 1, the missing-value count is 0, and the minimum, the
  maximum and the 25th, 50th and 75th percentiles all equal that number.
\<close>

theorem one_row_report:
  assumes "df s = \<lparr>index = ix, columns = [(''GDP_Growth_Rate'', FloatCol [Fin v])]\<rparr>"
  shows "\<exists>st. report s = Inr (s\<lparr>stdout := stdout s @
             [Text (CHR 0x0A # ''--- Descriptive Statistics (GDP Growth Rate) ---''),
              Table (NumericSummary st),
              Text (CHR 0x0A # ''Missing values check: 0''),
              Text (''Index type check: The data is time-series indexed: ''
                    @ str_bool (is_DatetimeIndex ix))]\<rparr>) \<and>
           count st = 1 \<and> min_val st = Fin v \<and> max_val st = Fin v \<and>
           pct25 st = Fin v \<and> pct50 st = Fin v \<and> pct75 st = Fin v \<and>
           isnull_sum_sum (df s) = 0"
proof -
  have z: "isnull_sum_sum (df s) = 0"
    by (simp add: assms isnull_sum_sum_def isnull_def)
  let ?st = "\<lparr>count = 1, mean = Fin v, std = NaN, min_val = Fin v, pct25 = Fin v,
              pct50 = Fin v, pct75 = Fin v, max_val = Fin v\<rparr>"
  have r: "report s = Inr (s\<lparr>stdout := stdout s @
             [Text (CHR 0x0A # ''--- Descriptive Statistics (GDP Growth Rate) ---''),
              Table (NumericSummary ?st),
              Text (CHR 0x0A # ''Missing values check: 0''),
              Text (''Index type check: The data is time-series indexed: ''
                    @ str_bool (is_DatetimeIndex ix))]\<rparr>)"
    using report_growth [OF assms]
    by (simp add: describe_single z str_nat.simps digit_char_def)
  show ?thesis
    by (rule exI [of _ ?st]) (simp add: r z)
qed

theorem one_row_report_witness:
  "\<exists>st. map_sum id stdout (report (one_row (Date 2005 1 1) (Fin 5))) =
          Inr [Text (CHR 0x0A # ''--- Descriptive Statistics (GDP Growth Rate) ---''),
               Table (NumericSummary st),
               Text (CHR 0x0A # ''Missing values check: 0''),
               Text ''Index type check: The data is time-series indexed: True''] \<and>
        count st = 1 \<and> min_val st = Fin 5 \<and> max_val st = Fin 5 \<and>
        pct25 st = Fin 5 \<and> pct50 st = Fin 5 \<and> pct75 st = Fin 5"
proof -
  have "df (one_row (Date 2005 1 1) (Fin 5)) =
          \<lparr>index = DatetimeIndex [Date 2005 1 1],
           columns = [(''GDP_Growth_Rate'', FloatCol [Fin 5])]\<rparr>"
    by (simp add: one_row_def)
  from one_row_report [OF this] obtain st where
    st: "report (one_row (Date 2005 1 1) (Fin 5)) =
           Inr ((one_row (Date 2005 1 1) (Fin 5))\<lparr>stdout := stdout (one_row (Date 2005 1 1) (Fin 5)) @
             [Text (CHR 0x0A # ''--- Descriptive Statistics (GDP Growth Rate) ---''),
              Table (NumericSummary st),
              Text (CHR 0x0A # ''Missing values check: 0''),
              Text (''Index type check: The data is time-series indexed: ''
                    @ str_bool (is_DatetimeIndex (DatetimeIndex [Date 2005 1 1])))]\<rparr>)"
        "count st = 1" "min_val st = Fin 5" "max_val st = Fin 5"
        "pct25 st = Fin 5" "pct50 st = Fin 5" "pct75 st = Fin 5"
    by blast
  have "map_sum id stdout (report (one_row (Date 2005 1 1) (Fin 5))) =
          Inr [Text (CHR 0x0A # ''--- Descriptive Statistics (GDP Growth Rate) ---''),
               Table (NumericSummary st),
               Text (CHR 0x0A # ''Missing values check: 0''),
               Text ''Index type check: The data is time-series indexed: True'']"
    unfolding st(1) by (simp add: one_row_def str_bool_def is_DatetimeIndex_def)
  with st(2-) show ?thesis by blast
qed

text \<open>
  A one-row table whose only cell is NaN is reported with count 0 and one missing value, and
  with every statistic undefined.
\<close>

theorem one_row_nan_counterexample:
  "len (df (one_row (Date 2005 1 1) NaN)) = 1 \<and>
   isnull_sum_sum (df (one_row (Date 2005 1 1) NaN)) = 1 \<and>
   map_sum id stdout (report (one_row (Date 2005 1 1) NaN)) =
     Inr [Text (CHR 0x0A # ''--- Descriptive Statistics (GDP Growth Rate) ---''),
          Table (NumericSummary \<lparr>count = 0, mean = NaN, std = NaN, min_val = NaN, pct25 = NaN,
                                 pct50 = NaN, pct75 = NaN, max_val = NaN\<rparr>),
          Text (CHR 0x0A # ''Missing values check: 1''),
          Text ''Index type check: The data is time-series indexed: True'']"
proof -
  have d: "df (one_row (Date 2005 1 1) NaN) =
          \<lparr>index = DatetimeIndex [Date 2005 1 1],
           columns = [(''GDP_Growth_Rate'', FloatCol [NaN])]\<rparr>"
    by (simp add: one_row_def)
  have n: "isnull_sum_sum (df (one_row (Date 2005 1 1) NaN)) = 1"
    by (simp add: one_row_def isnull_sum_sum_def isnull_def)
  have l: "len (df (one_row (Date 2005 1 1) NaN)) = 1"
    by (simp add: one_row_def len_def)
  from report_growth [OF d] have
    "map_sum id stdout (report (one_row (Date 2005 1 1) NaN)) =
       Inr [Text (CHR 0x0A # ''--- Descriptive Statistics (GDP Growth Rate) ---''),
            Table (NumericSummary \<lparr>count = 0, mean = NaN, std = NaN, min_val = NaN,
                                   pct25 = NaN, pct50 = NaN, pct75 = NaN, max_val = NaN\<rparr>),
            Text (CHR 0x0A # ''Missing values check: 1''),
            Text ''Index type check: The data is time-series indexed: True'']"
    by (simp add: describe_single_nan one_row_def isnull_sum_sum_def isnull_def
        str_nat.simps digit_char_def str_bool_def is_DatetimeIndex_def)
  with l n show ?thesis by blast
qed

end
